theory Spec2Isabelle
  imports Main "HOL-Library.Word" "HOL-Library.AList" "HOL-Library.Char_ord"
    "HOL-Library.List_Lexorder"
begin

section \<open>Request and response signing: package sign\<close>

text \<open>
  A shallow embedding of \<^verbatim>\<open>src/sign/signature_builder.go\<close>.

  Go strings are byte sequences: \<^typ>\<open>string\<close>, compared bytewise (the order of
  \<^verbatim>\<open>sort.Strings\<close> is the lexicographic order on \<^typ>\<open>char list\<close>).

  A Go \<^verbatim>\<open>map[string]string\<close> is an association list with distinct keys. The order of
  the list is the order in which \<^verbatim>\<open>range\<close> happens to visit the map, which Go leaves
  unspecified; writing a key is \<^const>\<open>AList.update\<close>, the length of the map is the length
  of the list, and reading a key that is not there gives the empty string.
\<close>

subsection \<open>Go maps\<close>

type_synonym params = "(string \<times> string) list"

text \<open>\<^verbatim>\<open>params[k]\<close>: the zero value for a missing key.\<close>

definition map_index :: "params \<Rightarrow> string \<Rightarrow> string" where
  "map_index m k = (case map_of m k of None \<Rightarrow> [] | Some v \<Rightarrow> v)"

subsection \<open>buildParamsSignatureText\<close>

text \<open>
  \<^verbatim>\<open>
  keys := make([]string, 0, len(params))
  for k := range params { keys = append(keys, k) }
  sort.Strings(keys)
  var paramStr string
  for _, k := range keys { paramStr += fmt.Sprintf("%s=%s", k, params[k]) }
  return paramStr + body
  \<close>
\<close>

definition buildParamsSignatureText :: "params \<Rightarrow> string \<Rightarrow> string" where
  "buildParamsSignatureText params body =
     (let keys = foldl (\<lambda>keys (k, _). keys @ [k]) [] params;
          keys = sort keys;
          paramStr = foldl (\<lambda>paramStr k. paramStr @ (k @ ''='' @ map_index params k)) [] keys
      in paramStr @ body)"

subsection \<open>Parameters of the model\<close>

text \<open>
  The package constants \<^verbatim>\<open>HeadKeyTimestamp\<close>, \<^verbatim>\<open>HeadKeySign\<close> and
  \<^verbatim>\<open>HeadKeyAccessKey\<close> are declared in another file of the package, and SHA-256,
  \<^verbatim>\<open>mime.ParseMediaType\<close> and \<^verbatim>\<open>url.ParseQuery\<close> belong to the Go library. They are
  parameters of the model:
  \<^item> the three header names, in the canonical form under which \<^verbatim>\<open>http.Header\<close> files them;
  \<^item> \<open>sha256_hex text\<close>, the lower-case hexadecimal SHA-256 digest of \<open>text\<close>;
  \<^item> \<open>ParseMediaType v\<close>, the media type of a Content-Type value, \<open>None\<close> when
    the library returns an error;
  \<^item> \<open>ParseQuery s\<close>, the \<^verbatim>\<open>url.Values\<close> of a query string and whether the library
    returned an error with them. \<^verbatim>\<open>url.Values\<close> is a \<^verbatim>\<open>map[string][]string\<close>: an
    association list, as above.
\<close>

type_synonym url_values = "(string \<times> string list) list"

record env =
  HeadKeyTimestamp :: string
  HeadKeySign :: string
  HeadKeyAccessKey :: string
  sha256_hex :: "string \<Rightarrow> string"
  ParseMediaType :: "string \<Rightarrow> string option"
  ParseQuery :: "string \<Rightarrow> url_values \<times> bool"

text \<open>
  \<^verbatim>\<open>url.Values.Get\<close>: the first value of the key, the empty string when there is none.
\<close>

definition values_Get :: "url_values \<Rightarrow> string \<Rightarrow> string" where
  "values_Get v key = (case map_of v key of None \<Rightarrow> [] | Some [] \<Rightarrow> [] | Some (x # _) \<Rightarrow> x)"

text \<open>
  \<^verbatim>\<open>http.Header\<close> is a map from canonical header names to their values;
  \<^verbatim>\<open>Get\<close> returns the first value or the empty string, \<^verbatim>\<open>Set\<close> replaces the values of
  the name by one.
\<close>

type_synonym header = "string \<rightharpoonup> string list"

definition header_Get :: "header \<Rightarrow> string \<Rightarrow> string" where
  "header_Get h key = (case h key of None \<Rightarrow> [] | Some [] \<Rightarrow> [] | Some (x # _) \<Rightarrow> x)"

definition header_Set :: "header \<Rightarrow> string \<Rightarrow> string \<Rightarrow> header" where
  "header_Set h key v = h(key \<mapsto> [v])"

text \<open>
  A body is an \<^verbatim>\<open>io.ReadCloser\<close>: the bytes it still has to deliver, and whether the
  stream ends in an I/O error instead of the end of file. \<^verbatim>\<open>io.ReadAll\<close> returns the bytes
  and the error and leaves the reader drained; \<^verbatim>\<open>io.NopCloser(bytes.NewBuffer(b))\<close> is a
  fresh reader of \<open>b\<close> that cannot fail. The field of the message may be \<^verbatim>\<open>nil\<close>
  (\<open>None\<close>), and reading it then panics.
\<close>

record reader =
  pending :: string
  broken :: bool

definition ReadAll :: "reader \<Rightarrow> (string \<times> bool) \<times> reader" where
  "ReadAll rd = ((pending rd, broken rd), rd\<lparr>pending := []\<rparr>)"

definition NewBuffer :: "string \<Rightarrow> reader" where
  "NewBuffer b = \<lparr>pending = b, broken = False\<rparr>"

record request =
  Header :: header
  Body :: "reader option"
  Path :: string
  RawQuery :: string

record response =
  RHeader :: header
  RBody :: "reader option"
  Request :: "request option"

subsection \<open>Integers and their decimal form\<close>

text \<open>
  \<^verbatim>\<open>time.Now().Unix()\<close> and the parsed timestamp are \<^verbatim>\<open>int64\<close>; \<^verbatim>\<open>expiredIn\<close> is an
  \<^verbatim>\<open>int\<close>, 64 bits wide on the platforms of the SDK. All three are \<^typ>\<open>64 word\<close>,
  read as two's complement.

  \<^verbatim>\<open>fmt.Sprintf("%d", n)\<close>: a minus sign for a negative number, then the decimal digits.
\<close>

type_synonym int64 = "64 word"

definition digit_char :: "nat \<Rightarrow> char" where
  "digit_char d = ''0123456789'' ! d"

fun digits :: "nat \<Rightarrow> string" where
  "digits n = (if n < 10 then [digit_char n] else digits (n div 10) @ [digit_char (n mod 10)])"

declare digits.simps [simp del]

definition formatInt :: "int64 \<Rightarrow> string" where
  "formatInt n = (if sint n < 0 then CHR ''-'' # digits (nat (- sint n)) else digits (nat (sint n)))"

text \<open>
  \<^verbatim>\<open>strconv.ParseInt(s, 10, 64)\<close>: an optional sign, then one decimal digit or more and
  nothing else, of a value that fits 64 bits in two's complement. Every other string is an
  error (\<open>None\<close>), a \<^verbatim>\<open>*strconv.NumError\<close> that quotes the string.
\<close>

definition is_digit :: "char \<Rightarrow> bool" where
  "is_digit c = (CHR ''0'' \<le> c \<and> c \<le> CHR ''9'')"

fun parse_digits :: "nat \<Rightarrow> string \<Rightarrow> nat option" where
  "parse_digits acc [] = Some acc"
| "parse_digits acc (c # cs) =
     (if is_digit c then parse_digits (acc * 10 + (of_char c - 48)) cs else None)"

definition ParseUint :: "string \<Rightarrow> nat option" where
  "ParseUint s = (if s = [] then None else parse_digits 0 s)"

definition ParseInt :: "string \<Rightarrow> int64 option" where
  "ParseInt s =
     (case s of
        [] \<Rightarrow> None
      | c # cs \<Rightarrow>
          (let neg = (c = CHR ''-'');
               s1 = (if c = CHR ''+'' \<or> c = CHR ''-'' then cs else s)
           in case ParseUint s1 of
                None \<Rightarrow> None
              | Some un \<Rightarrow>
                  if \<not> neg \<and> un \<ge> 2 ^ 63 then None
                  else if neg \<and> un > 2 ^ 63 then None
                  else Some (if neg then - word_of_nat un else word_of_nat un)))"

text \<open>\<^verbatim>\<open>strings.Contains(s, substr)\<close>.\<close>

fun Contains :: "string \<Rightarrow> string \<Rightarrow> bool" where
  "Contains [] substr = (substr = [])"
| "Contains (c # s) substr = (take (length substr) (c # s) = substr \<or> Contains s substr)"

subsection \<open>The signature builder\<close>

record SignatureBuilder =
  accessKey :: string
  secretKey :: string
  expiredIn :: int64

record SignatureResult =
  FinalText :: string
  Timestamp :: string
  Sign :: string
  AccessKey :: string

definition NewSignatureBuilder :: "string \<Rightarrow> string \<Rightarrow> int64 \<Rightarrow> SignatureBuilder" where
  "NewSignatureBuilder ak sk expired = \<lparr>accessKey = ak, secretKey = sk, expiredIn = expired\<rparr>"

text \<open>
  The errors the package returns, named after their messages. \<open>NumError\<close> is the error of
  \<^verbatim>\<open>strconv.ParseInt\<close>, with the string it could not parse; \<open>ReadError\<close> is the error of
  the body's reader, returned as it is; \<open>NilDereference\<close> is the run-time panic of a read
  through a \<^verbatim>\<open>nil\<close> body or request.
\<close>

datatype error =
    NilDereference
  | ReadError
  | TimestampMissingInResponseHeader
  | SignatureMissingInResponseHeader
  | AccessKeyValidationFailed
  | SignatureValidationFailed
  | NumError string
  | TimestampExpired
  | FailedToParseContentType
  | FailedToReadRequestBody
  | FailedToParseFormData
  | UnsupportedContentType string

definition hash :: "env \<Rightarrow> string \<Rightarrow> string" where
  "hash E text = sha256_hex E text"

text \<open>
  \<^verbatim>\<open>
  params := make(map[string]string)
  for key, values := range r.URL.Query() {
      if len(values) > 0 { params[key] = values[0] }
  }
  \<close>
  \<^verbatim>\<open>URL.Query()\<close> parses \<^verbatim>\<open>RawQuery\<close> with \<^verbatim>\<open>url.ParseQuery\<close> and drops the error.
\<close>

definition getGETParams :: "env \<Rightarrow> request \<Rightarrow> params" where
  "getGETParams E r =
     foldl (\<lambda>params (key, values).
              case values of [] \<Rightarrow> params | v # _ \<Rightarrow> AList.update key v params)
       [] (fst (ParseQuery E (RawQuery r)))"

definition defaultContentType :: string where
  "defaultContentType = ''application/x-www-form-urlencoded''"

text \<open>
  \<^verbatim>\<open>getPOSTParams\<close> returns the body text, the form parameters and the error; the request
  comes back too, since its body is read and replaced.
\<close>

definition getPOSTParams :: "env \<Rightarrow> request \<Rightarrow> (error + string \<times> params) \<times> request" where
  "getPOSTParams E r =
     (let ct = header_Get (Header r) ''Content-Type'';
          ct = (if ct = [] then defaultContentType else ct)
      in case ParseMediaType E ct of
           None \<Rightarrow> (Inl FailedToParseContentType, r)
         | Some ct \<Rightarrow>
             (case Body r of
                None \<Rightarrow> (Inl NilDereference, r)
              | Some rd \<Rightarrow>
                  (case ReadAll rd of
                     ((body, True), rd') \<Rightarrow> (Inl FailedToReadRequestBody, r\<lparr>Body := Some rd'\<rparr>)
                   | ((body, False), rd') \<Rightarrow>
                       (let r = r\<lparr>Body := Some (NewBuffer body)\<rparr>
                        in if Contains ct ''application/json'' then (Inr (body, []), r)
                           else if Contains ct defaultContentType then
                             (case ParseQuery E body of
                                (values, True) \<Rightarrow> (Inl FailedToParseFormData, r)
                              | (values, False) \<Rightarrow>
                                  (let params =
                                         foldl (\<lambda>params (k, _).
                                                  AList.update k (values_Get values k) params)
                                           [] values
                                   in (Inr ([], params), r)))
                           else (Inl (UnsupportedContentType ct), r)))))"

text \<open>
  \<^verbatim>\<open>
  if len(postParams) > 0 {
      for k, v := range postParams { queryParams[k] = v }
  }
  \<close>
\<close>

definition mergeParams :: "params \<Rightarrow> params \<Rightarrow> params" where
  "mergeParams queryParams postParams =
     (if length postParams > 0
      then foldl (\<lambda>queryParams (k, v). AList.update k v queryParams) queryParams postParams
      else queryParams)"

text \<open>The clock is read where the source calls \<^verbatim>\<open>time.Now().Unix()\<close>: the argument \<open>now\<close>.\<close>

definition buildSignatureFromIncomeRequest ::
  "env \<Rightarrow> SignatureBuilder \<Rightarrow> int64 \<Rightarrow> request \<Rightarrow> (error + SignatureResult) \<times> request" where
  "buildSignatureFromIncomeRequest E s now r =
     (let queryParams = getGETParams E r
      in case getPOSTParams E r of
           (Inl err, r) \<Rightarrow> (Inl err, r)
         | (Inr (body, postParams), r) \<Rightarrow>
             (let queryParams = mergeParams queryParams postParams;
                  ts = header_Get (Header r) (HeadKeyTimestamp E);
                  ts = (if ts = [] then formatInt now else ts);
                  path = Path r;
                  finalText = path @ buildParamsSignatureText queryParams body @ ts @ secretKey s;
                  sign = hash E finalText
              in (Inr \<lparr>FinalText = finalText, Timestamp = ts, Sign = sign, AccessKey = []\<rparr>, r)))"

definition SignRequest ::
  "env \<Rightarrow> SignatureBuilder \<Rightarrow> int64 \<Rightarrow> request \<Rightarrow> (error + SignatureResult) \<times> request" where
  "SignRequest E s now r =
     (case buildSignatureFromIncomeRequest E s now r of
        (Inl err, r) \<Rightarrow> (Inl err, r)
      | (Inr rs, r) \<Rightarrow>
          (let r = r\<lparr>Header := header_Set (Header r) (HeadKeyTimestamp E) (Timestamp rs)\<rparr>;
               r = r\<lparr>Header := header_Set (Header r) (HeadKeyAccessKey E) (accessKey s)\<rparr>;
               r = r\<lparr>Header := header_Set (Header r) (HeadKeySign E) (Sign rs)\<rparr>
           in (Inr rs, r)))"

text \<open>
  The expiry test of \<^verbatim>\<open>ValidateRequest\<close>:
  \<^verbatim>\<open>s.expiredIn > 0 && int(time.Now().Unix()-timestamp) > s.expiredIn\<close>.
  The subtraction is the one of \<^verbatim>\<open>int64\<close>, which wraps around.
\<close>

definition expired :: "SignatureBuilder \<Rightarrow> int64 \<Rightarrow> int64 \<Rightarrow> bool" where
  "expired s now timestamp = (0 <s expiredIn s \<and> expiredIn s <s now - timestamp)"

definition ValidateRequest ::
  "env \<Rightarrow> SignatureBuilder \<Rightarrow> int64 \<Rightarrow> request \<Rightarrow> (error + unit) \<times> request" where
  "ValidateRequest E s now r =
     (let ts = header_Get (Header r) (HeadKeyTimestamp E)
      in case ParseInt ts of
           None \<Rightarrow> (Inl (NumError ts), r)
         | Some timestamp \<Rightarrow>
             if expired s now timestamp then (Inl TimestampExpired, r)
             else
               (case buildSignatureFromIncomeRequest E s now r of
                  (Inl err, r) \<Rightarrow> (Inl err, r)
                | (Inr rs, r) \<Rightarrow>
                    if Sign rs \<noteq> header_Get (Header r) (HeadKeySign E)
                    then (Inl SignatureValidationFailed, r)
                    else (Inr (), r)))"

definition SignResponseBody ::
  "env \<Rightarrow> SignatureBuilder \<Rightarrow> int64 \<Rightarrow> string \<Rightarrow> string \<Rightarrow> SignatureResult" where
  "SignResponseBody E s now reqPath body =
     (let ts = formatInt now;
          finalText = reqPath @ buildParamsSignatureText [] body @ ts @ secretKey s;
          sign = hash E finalText
      in \<lparr>FinalText = finalText, Timestamp = ts, Sign = sign, AccessKey = accessKey s\<rparr>)"

definition ValidateResponse ::
  "env \<Rightarrow> SignatureBuilder \<Rightarrow> response \<Rightarrow> (error + unit) \<times> response" where
  "ValidateResponse E s res =
     (case RBody res of
        None \<Rightarrow> (Inl NilDereference, res)
      | Some rd \<Rightarrow>
          (case ReadAll rd of
             ((body, True), rd') \<Rightarrow> (Inl ReadError, res\<lparr>RBody := Some rd'\<rparr>)
           | ((body, False), rd') \<Rightarrow>
               (let res = res\<lparr>RBody := Some (NewBuffer body)\<rparr>;
                    ts = header_Get (RHeader res) (HeadKeyTimestamp E)
                in if ts = [] then (Inl TimestampMissingInResponseHeader, res)
                   else
                     (let sign = header_Get (RHeader res) (HeadKeySign E)
                      in if sign = [] then (Inl SignatureMissingInResponseHeader, res)
                         else
                           (let ak = header_Get (RHeader res) (HeadKeyAccessKey E)
                            in if ak \<noteq> accessKey s then (Inl AccessKeyValidationFailed, res)
                               else if ak \<noteq> accessKey s then (Inl AccessKeyValidationFailed, res)
                               else
                                 (let signText = buildParamsSignatureText [] body
                                  in case Request res of
                                       None \<Rightarrow> (Inl NilDereference, res)
                                     | Some rq \<Rightarrow>
                                         (let path = Path rq;
                                              finalText = path @ signText @ ts @ secretKey s;
                                              resSign = hash E finalText
                                          in if resSign = sign then (Inr (), res)
                                             else (Inl SignatureValidationFailed, res))))))))"

subsection \<open>A concrete instance for the examples\<close>

text \<open>
  The examples below run the code on the request of \<^verbatim>\<open>TestSigRequest\<close>: a POST to
  \<^verbatim>\<open>/v1/photos/generate?data=a\<close> with the body \<^verbatim>\<open>a=b&d=c\<close>, signed with the access key
  \<^verbatim>\<open>ak\<close>, the secret \<^verbatim>\<open>sk\<close> and a window of 3600 seconds. For them the parameters are
  instantiated by finite tables of what the Go library returns on the strings the examples
  use: the SHA-256 digests of their signing texts, the media types and the query strings.
  Outside its table \<open>example_sha256_hex\<close> returns the empty string and the two parsers
  report an error. The three header names stand for the constants of the package.
\<close>

definition example_sha256_hex :: "string \<Rightarrow> string" where
  "example_sha256_hex text =
     (case map_of
        [(''/v1/photos/generatea=bd=cdata=a1700000000sk'',
          ''3e0e5cf8447cb546e74ee9094d69bfcb5d1f423147bd4378b9934d24576e0834''),
         (''/v1/photos/generatea=bd=cdata=a2023-11-14T22:13:20Zsk'',
          ''febd927629af1068b0056aa6311753b11cacdfe99b075c677dfb5b3107c02e9d''),
         (''/v1/photos/generatea=bd=cdata=a-9223372036854775808sk'',
          ''acba3d2b03d6c968c0bedddbd0ed78ed453dfa4b6e9453f188a02abd3b42f586''),
         (''/v1/photos/generateaaaaaaayesterdaysk'',
          ''8c4edeffc1f43731e425bf5312ec8a4e755fde0b6fc89cded2103653e26331f8''),
         (''/v1/photos/generateaaaaaaa1700000000sk'',
          ''65faf5dc0bf292319885f42eb992dc2a81d39957805c66d81160fc8172360579'')] text of
        None \<Rightarrow> []
      | Some d \<Rightarrow> d)"

definition example_ParseMediaType :: "string \<Rightarrow> string option" where
  "example_ParseMediaType v =
     (if v = ''application/x-www-form-urlencoded'' \<or> v = ''application/json'' \<or> v = ''text/plain''
      then Some v else None)"

definition example_ParseQuery :: "string \<Rightarrow> url_values \<times> bool" where
  "example_ParseQuery q =
     (case map_of
        [([], []),
         (''data=a'', [(''data'', [''a''])]),
         (''a=b&d=c'', [(''a'', [''b'']), (''d'', [''c''])]),
         (''a=x&data=a'', [(''a'', [''x'']), (''data'', [''a''])])] q of
        None \<Rightarrow> ([], True)
      | Some v \<Rightarrow> (v, False))"

definition example_env :: env where
  "example_env =
     \<lparr>HeadKeyTimestamp = ''X-Timestamp'', HeadKeySign = ''X-Sign'',
      HeadKeyAccessKey = ''X-Access-Key'', sha256_hex = example_sha256_hex,
      ParseMediaType = example_ParseMediaType, ParseQuery = example_ParseQuery\<rparr>"

definition example_builder :: SignatureBuilder where
  "example_builder = NewSignatureBuilder ''ak'' ''sk'' 3600"

definition example_request :: request where
  "example_request =
     \<lparr>Header = Map.empty, Body = Some (NewBuffer ''a=b&d=c''),
      Path = ''/v1/photos/generate'', RawQuery = ''data=a''\<rparr>"

definition dated_request :: request where
  "dated_request = example_request\<lparr>Header := [''X-Timestamp'' \<mapsto> [''2023-11-14T22:13:20Z'']]\<rparr>"

text \<open>Variations of the request: its headers, its query string and its body.\<close>

definition stamped_request :: "string \<Rightarrow> request" where
  "stamped_request ts = example_request\<lparr>Header := [''X-Timestamp'' \<mapsto> [ts]]\<rparr>"

definition ancient_request :: request where
  "ancient_request = example_request\<lparr>Header :=
     [''X-Timestamp'' \<mapsto> [''-9223372036854775808''],
      ''X-Sign'' \<mapsto> [''acba3d2b03d6c968c0bedddbd0ed78ed453dfa4b6e9453f188a02abd3b42f586'']]\<rparr>"

definition json_request :: request where
  "json_request = example_request\<lparr>Header := [''Content-Type'' \<mapsto> [''application/json'']],
                                   Body := Some (NewBuffer ''{\"a\":1}'')\<rparr>"

definition typed_request :: "string \<Rightarrow> request" where
  "typed_request ct = example_request\<lparr>Header := [''Content-Type'' \<mapsto> [ct]]\<rparr>"

definition colliding_request :: request where
  "colliding_request = example_request\<lparr>RawQuery := ''a=x&data=a''\<rparr>"

text \<open>
  The response of \<^verbatim>\<open>TestSignResponse\<close>: the body \<^verbatim>\<open>aaaaaaa\<close>, answering a GET of the same
  path, with the three headers of \<^verbatim>\<open>SignResponseBody\<close> at the time 1700000000; the same
  response without its access key header; and with a timestamp that is not a number.
\<close>

definition example_response :: response where
  "example_response =
     \<lparr>RHeader = [''X-Timestamp'' \<mapsto> [''1700000000''],
                 ''X-Sign'' \<mapsto> [''65faf5dc0bf292319885f42eb992dc2a81d39957805c66d81160fc8172360579''],
                 ''X-Access-Key'' \<mapsto> [''ak'']],
      RBody = Some (NewBuffer ''aaaaaaa''),
      Request = Some \<lparr>Header = Map.empty, Body = None, Path = ''/v1/photos/generate'',
                      RawQuery = ''data=a''\<rparr>\<rparr>"

definition unkeyed_response :: response where
  "unkeyed_response = example_response\<lparr>RHeader := (RHeader example_response)(''X-Access-Key'' := None)\<rparr>"

definition stale_response :: response where
  "stale_response = example_response\<lparr>RHeader :=
     [''X-Timestamp'' \<mapsto> [''yesterday''],
      ''X-Sign'' \<mapsto> [''8c4edeffc1f43731e425bf5312ec8a4e755fde0b6fc89cded2103653e26331f8''],
      ''X-Access-Key'' \<mapsto> [''ak'']]\<rparr>"

section \<open>Properties\<close>

lemma foldl_append_keys: "foldl (\<lambda>keys (k, _). keys @ [k]) acc m = acc @ map fst m"
  by (induction m arbitrary: acc) (auto split: prod.splits)

lemma foldl_append_concat: "foldl (\<lambda>acc k. acc @ f k) acc ks = acc @ concat (map f ks)"
  by (induction ks arbitrary: acc) auto

lemma buildParamsSignatureText_eq:
  "buildParamsSignatureText params body =
     concat (map (\<lambda>k. k @ ''='' @ map_index params k) (sort (map fst params))) @ body"
  by (simp add: buildParamsSignatureText_def foldl_append_keys foldl_append_concat)


subsection \<open>The canonical text\<close>

lemma sort_keys:
  "distinct (map fst m) \<Longrightarrow> sort (map fst m) = sorted_list_of_set (fst ` set m)"
  by (simp add: sorted_list_of_set_sort_remdups distinct_remdups_id flip: set_map)

lemma map_index_key: "k \<in> fst ` set m \<Longrightarrow> map_index m k = the (map_of m k)"
  by (auto simp: map_index_def dom_map_of_conv_image_fst [symmetric])

lemma buildParamsSignatureText_keys:
  assumes "distinct (map fst params)"
  shows "buildParamsSignatureText params body =
           concat (map (\<lambda>k. k @ ''='' @ the (map_of params k))
                       (sorted_list_of_set (fst ` set params))) @ body"
proof -
  let ?ks = "sorted_list_of_set (fst ` set params)"
  have "map (\<lambda>k. k @ ''='' @ map_index params k) ?ks
      = map (\<lambda>k. k @ ''='' @ the (map_of params k)) ?ks"
    by (rule map_cong [OF refl]) (simp add: map_index_key)
  then show ?thesis
    unfolding buildParamsSignatureText_eq sort_keys [OF assms] by (rule arg_cong)
qed

lemma buildParamsSignatureText_map_of:
  assumes "distinct (map fst params)" and "distinct (map fst params')"
    and "map_of params' = map_of params"
  shows "buildParamsSignatureText params' body = buildParamsSignatureText params body"
proof -
  from assms(3) have "dom (map_of params') = dom (map_of params)" by simp
  then have "fst ` set params' = fst ` set params"
    by (simp add: dom_map_of_conv_image_fst)
  with assms show ?thesis by (simp add: buildParamsSignatureText_keys)
qed

lemma buildParamsSignatureText_Nil [simp]: "buildParamsSignatureText [] body = body"
  by (simp add: buildParamsSignatureText_def)

subsection \<open>Decimal numbers\<close>

lemma parse_digits_append:
  "parse_digits a (xs @ ys) =
     (case parse_digits a xs of None \<Rightarrow> None | Some b \<Rightarrow> parse_digits b ys)"
  by (induction xs arbitrary: a) auto

lemma digit_char_props:
  assumes "d < 10"
  shows "is_digit (digit_char d)" and "of_char (digit_char d) - 48 = d"
proof -
  from assms
  have "d = 0 \<or> d = 1 \<or> d = 2 \<or> d = 3 \<or> d = 4 \<or> d = 5 \<or> d = 6 \<or> d = 7 \<or> d = 8 \<or> d = 9"
    by arith
  then show "is_digit (digit_char d)" and "of_char (digit_char d) - 48 = d"
    by (auto simp: digit_char_def is_digit_def)
qed

lemma parse_digits_digits: "parse_digits 0 (digits n) = Some n"
proof (induction n rule: digits.induct)
  case (1 n)
  show ?case
  proof (cases "n < 10")
    case True
    then show ?thesis by (simp add: digits.simps [of n] digit_char_props)
  next
    case False
    with 1 have "parse_digits 0 (digits (n div 10)) = Some (n div 10)" by simp
    with False show ?thesis
      by (simp add: digits.simps [of n] parse_digits_append digit_char_props)
  qed
qed

lemma digits_not_Nil: "digits n \<noteq> []"
  by (subst digits.simps) simp

lemma digits_all_digit: "c \<in> set (digits n) \<Longrightarrow> is_digit c"
proof (induction n rule: digits.induct)
  case (1 n)
  then show ?case
    by (cases "n < 10") (auto simp: digits.simps [of n] digit_char_props)
qed

lemma ParseUint_digits: "ParseUint (digits n) = Some n"
  by (simp add: ParseUint_def digits_not_Nil parse_digits_digits)

lemma formatInt_not_Nil: "formatInt n \<noteq> []"
  by (simp add: formatInt_def digits_not_Nil)

text \<open>Parsing the decimal form of a number gives the number back.\<close>

lemma ParseInt_formatInt: "ParseInt (formatInt n) = Some n"
proof (cases "sint n < 0")
  case True
  have "nat (- sint n) \<le> 2 ^ 63" using sint_ge [of n] by simp
  moreover have "- word_of_nat (nat (- sint n)) = n"
    using True by simp
  ultimately show ?thesis using True
    by (simp add: formatInt_def ParseInt_def ParseUint_digits)
next
  case False
  obtain c cs where cs: "digits (nat (sint n)) = c # cs"
    using digits_not_Nil by (cases "digits (nat (sint n))") auto
  then have "is_digit c" using digits_all_digit [of c "nat (sint n)"] by simp
  then have c: "c \<noteq> CHR ''+''" "c \<noteq> CHR ''-''" by (auto simp: is_digit_def)
  have "nat (sint n) < 2 ^ 63" using sint_lt [of n] False by simp
  moreover have "word_of_nat (nat (sint n)) = n" using False by simp
  moreover have "ParseUint (c # cs) = Some (nat (sint n))"
    using ParseUint_digits [of "nat (sint n)"] cs by simp
  ultimately show ?thesis using False c cs
    by (simp add: formatInt_def ParseInt_def)
qed

subsection \<open>Extraction of the body and the parameters\<close>

lemma NewBuffer_pending: "\<not> broken rd \<Longrightarrow> NewBuffer (pending rd) = rd"
  by (cases rd) (simp add: NewBuffer_def)

lemma getPOSTParams_readable:
  assumes "Body r = Some rd" and "\<not> broken rd"
  shows "getPOSTParams E r =
    (case ParseMediaType E (if header_Get (Header r) ''Content-Type'' = [] then defaultContentType
                            else header_Get (Header r) ''Content-Type'') of
       None \<Rightarrow> (Inl FailedToParseContentType, r)
     | Some ct \<Rightarrow>
        (if Contains ct ''application/json'' then (Inr (pending rd, []), r)
         else if Contains ct defaultContentType then
           (if snd (ParseQuery E (pending rd)) then (Inl FailedToParseFormData, r)
            else (Inr ([], foldl (\<lambda>params (k, _). AList.update k (values_Get (fst (ParseQuery E (pending rd))) k) params)
                              [] (fst (ParseQuery E (pending rd)))), r))
         else (Inl (UnsupportedContentType ct), r)))"
proof -
  have "r\<lparr>Body := Some (NewBuffer (pending rd))\<rparr> = r"
    using assms by (simp add: NewBuffer_pending)
  then show ?thesis using assms
    by (simp add: getPOSTParams_def ReadAll_def Let_def split: option.splits prod.splits bool.splits)
qed

lemma getPOSTParams_Inr_readable:
  assumes "fst (getPOSTParams E r) = Inr x"
  shows "\<exists>rd. Body r = Some rd \<and> \<not> broken rd"
  using assms
  by (auto simp: getPOSTParams_def ReadAll_def Let_def split: option.splits prod.splits bool.splits if_splits)

lemma getPOSTParams_unchanged:
  "fst (getPOSTParams E r) = Inr x \<Longrightarrow> snd (getPOSTParams E r) = r"
  using getPOSTParams_Inr_readable [of E r x] getPOSTParams_readable [of r _ E]
  by (auto split: option.splits if_splits)

lemma foldl_update_map_of:
  "map_of (foldl (\<lambda>m (k, _). AList.update k (f k) m) acc xs) k =
     (if k \<in> fst ` set xs then Some (f k) else map_of acc k)"
  by (induction xs arbitrary: acc) (auto simp: update_conv' split: prod.splits)

lemma foldl_update_distinct:
  "distinct (map fst acc) \<Longrightarrow> distinct (map fst (foldl (\<lambda>m (k, _). AList.update k (f k) m) acc xs))"
  by (induction xs arbitrary: acc) (auto simp: distinct_update split: prod.splits)

subsection \<open>Go maps built by the loops\<close>

lemma foldl_first_value_distinct:
  "distinct (map fst acc) \<Longrightarrow>
   distinct (map fst (foldl (\<lambda>params (key, values).
              case values of [] \<Rightarrow> params | v # _ \<Rightarrow> AList.update key v params) acc xs))"
  by (induction xs arbitrary: acc) (auto simp: distinct_update split: prod.splits list.splits)

lemma getGETParams_distinct: "distinct (map fst (getGETParams E r))"
  unfolding getGETParams_def by (rule foldl_first_value_distinct) simp

lemma merge_foldl_map_of:
  "distinct (map fst p) \<Longrightarrow>
   map_of (foldl (\<lambda>queryParams (k, v). AList.update k v queryParams) q p) = map_of q ++ map_of p"
proof (induction p arbitrary: q)
  case Nil
  then show ?case by simp
next
  case (Cons a p)
  obtain k v where a: "a = (k, v)" by (cases a)
  from Cons.prems a have k: "k \<notin> dom (map_of p)" by (simp add: dom_map_of_conv_image_fst)
  from Cons a have "map_of (foldl (\<lambda>queryParams (k, v). AList.update k v queryParams) q (a # p))
      = (map_of q)(k \<mapsto> v) ++ map_of p" by (simp add: update_conv')
  also have "\<dots> = (map_of q ++ map_of p)(k \<mapsto> v)" using k by (rule map_add_upd_left)
  also have "\<dots> = map_of q ++ map_of (a # p)" using a by simp
  finally show ?case .
qed

lemma merge_foldl_distinct:
  "distinct (map fst q) \<Longrightarrow>
   distinct (map fst (foldl (\<lambda>queryParams (k, v). AList.update k v queryParams) q p))"
  by (induction p arbitrary: q) (auto simp: distinct_update split: prod.splits)

lemma mergeParams_map_of:
  "distinct (map fst p) \<Longrightarrow> map_of (mergeParams q p) = map_of q ++ map_of p"
  by (cases p) (simp_all add: mergeParams_def merge_foldl_map_of del: foldl_Cons)

lemma mergeParams_distinct:
  "distinct (map fst q) \<Longrightarrow> distinct (map fst (mergeParams q p))"
  by (simp add: mergeParams_def merge_foldl_distinct)

lemma getPOSTParams_distinct:
  assumes "fst (getPOSTParams E r) = Inr (body, postParams)"
  shows "distinct (map fst postParams)"
proof -
  from getPOSTParams_Inr_readable [OF assms] obtain rd where "Body r = Some rd" "\<not> broken rd"
    by blast
  from getPOSTParams_readable [OF this, of E] assms show ?thesis
    by (auto simp: foldl_update_distinct split: option.splits if_splits)
qed

lemma buildSignature_Inr:
  assumes "fst (getPOSTParams E r) = Inr (body, postParams)"
  shows "buildSignatureFromIncomeRequest E s now r =
    (let ts = (if header_Get (Header r) (HeadKeyTimestamp E) = [] then formatInt now
               else header_Get (Header r) (HeadKeyTimestamp E));
         finalText = Path r @ buildParamsSignatureText (mergeParams (getGETParams E r) postParams) body
                       @ ts @ secretKey s
     in (Inr \<lparr>FinalText = finalText, Timestamp = ts, Sign = hash E finalText, AccessKey = []\<rparr>, r))"
proof -
  from assms getPOSTParams_unchanged [OF assms]
  have "getPOSTParams E r = (Inr (body, postParams), r)" by (simp add: prod_eq_iff)
  then show ?thesis by (simp add: buildSignatureFromIncomeRequest_def Let_def)
qed

lemma buildSignature_Inl:
  assumes "fst (getPOSTParams E r) = Inl e"
  shows "buildSignatureFromIncomeRequest E s now r = (Inl e, snd (getPOSTParams E r))"
  using assms by (cases "getPOSTParams E r") (simp add: buildSignatureFromIncomeRequest_def Let_def)

lemma buildSignature_fst_cases:
  "fst (buildSignatureFromIncomeRequest E s now r) = Inr rs \<Longrightarrow>
   \<exists>body postParams. fst (getPOSTParams E r) = Inr (body, postParams)"
  by (cases "getPOSTParams E r")
     (auto simp: buildSignatureFromIncomeRequest_def Let_def split: sum.splits)

subsection \<open>Strings that are not numbers\<close>

lemma parse_digits_non_digit: "c \<in> set cs \<Longrightarrow> \<not> is_digit c \<Longrightarrow> parse_digits a cs = None"
  by (induction cs arbitrary: a) auto

lemma ParseInt_non_numeric:
  assumes "c \<in> set ts" and "\<not> is_digit c" and "c \<noteq> CHR ''+''" and "c \<noteq> CHR ''-''"
  shows "ParseInt ts = None"
proof (cases ts)
  case Nil
  with assms show ?thesis by simp
next
  case (Cons c0 cs)
  let ?s1 = "if c0 = CHR ''+'' \<or> c0 = CHR ''-'' then cs else ts"
  from assms Cons have "c \<in> set ?s1" by auto
  then have "ParseUint ?s1 = None"
    using assms(2) by (auto simp: ParseUint_def parse_digits_non_digit)
  then show ?thesis using Cons by (auto simp: ParseInt_def Let_def split: if_splits)
qed

subsection \<open>The expiry test\<close>

lemma expired_iff:
  assumes "- (2 ^ 63) \<le> sint now - sint t" and "sint now - sint t < 2 ^ 63"
  shows "expired s now t \<longleftrightarrow> 0 < sint (expiredIn s) \<and> sint (expiredIn s) < sint now - sint t"
proof -
  have "sint (now - t) = sint now - sint t"
    using assms by (simp add: sint_word_ariths signed_take_bit_int_eq_self)
  then show ?thesis by (simp add: expired_def word_sless_alt)
qed

lemma expired_window: "expiredIn s = 3600 \<Longrightarrow> \<not> expired s now (now - 3600)"
  "expiredIn s = 3600 \<Longrightarrow> expired s now (now - 3601)"
  by (simp_all add: expired_def word_sless_alt)

lemma expired_disabled: "sint (expiredIn s) \<le> 0 \<Longrightarrow> \<not> expired s now t"
  by (simp add: expired_def word_sless_alt)

lemma expired_future:
  assumes "0 \<le> sint now" and "sint now < sint t"
  shows "\<not> expired s now t"
proof -
  have "sint t < 2 ^ 63" using sint_lt [of t] by simp
  with assms have "- (2 ^ 63) \<le> sint now - sint t" "sint now - sint t < 2 ^ 63" by simp_all
  from expired_iff [OF this] assms show ?thesis by simp
qed

subsection \<open>Media types\<close>

text \<open>
  A media type has one slash at most, so that it cannot contain both
  \<^verbatim>\<open>application/json\<close> and \<^verbatim>\<open>application/x-www-form-urlencoded\<close>.
\<close>

lemma Contains_iff: "Contains s sub \<longleftrightarrow> (\<exists>p q. s = p @ sub @ q)"
proof (induction s)
  case Nil
  then show ?case by auto
next
  case (Cons c s)
  show ?case
  proof
    assume "Contains (c # s) sub"
    then consider "take (length sub) (c # s) = sub" | "Contains s sub" by auto
    then show "\<exists>p q. c # s = p @ sub @ q"
    proof cases
      case 1
      then have "c # s = [] @ sub @ drop (length sub) (c # s)"
        by (metis append_Nil append_take_drop_id)
      then show ?thesis by blast
    next
      case 2
      with Cons obtain p q where "s = p @ sub @ q" by blast
      then have "c # s = (c # p) @ sub @ q" by simp
      then show ?thesis by blast
    qed
  next
    assume "\<exists>p q. c # s = p @ sub @ q"
    then obtain p q where pq: "c # s = p @ sub @ q" by blast
    show "Contains (c # s) sub"
    proof (cases p)
      case Nil
      with pq have "take (length sub) (c # s) = sub" by simp
      then show ?thesis by simp
    next
      case (Cons c' p')
      with pq have "s = p' @ sub @ q" by simp
      with Cons.IH show ?thesis by auto
    qed
  qed
qed

lemma takeWhile_upto:
  "c \<notin> set p \<Longrightarrow> takeWhile (\<lambda>x. x \<noteq> c) (p @ ys) = p @ takeWhile (\<lambda>x. x \<noteq> c) ys"
  by (induction p) auto

lemma media_type_exclusive:
  assumes "count_list ct CHR ''/'' \<le> 1"
  shows "\<not> (Contains ct ''application/json'' \<and> Contains ct ''application/x-www-form-urlencoded'')"
proof
  assume "Contains ct ''application/json'' \<and> Contains ct ''application/x-www-form-urlencoded''"
  then obtain p1 q1 p2 q2 where
    1: "ct = p1 @ ''application/json'' @ q1" and
    2: "ct = p2 @ ''application/x-www-form-urlencoded'' @ q2"
    unfolding Contains_iff by blast
  from assms 1 have n1: "CHR ''/'' \<notin> set p1"
    by (auto simp: count_list_0_iff [symmetric] simp del: count_list_0_iff)
  from assms 2 have n2: "CHR ''/'' \<notin> set p2"
    by (auto simp: count_list_0_iff [symmetric] simp del: count_list_0_iff)
  have "takeWhile (\<lambda>c. c \<noteq> CHR ''/'') ct = p1 @ ''application''"
    unfolding 1 using n1 by (simp add: takeWhile_upto)
  moreover have "takeWhile (\<lambda>c. c \<noteq> CHR ''/'') ct = p2 @ ''application''"
    unfolding 2 using n2 by (simp add: takeWhile_upto)
  ultimately have "p1 = p2" by simp
  with 1 2 show False by simp
qed

subsection \<open>Requests\<close>

lemma getPOSTParams_cong:
  "header_Get (Header r') ''Content-Type'' = header_Get (Header r) ''Content-Type'' \<Longrightarrow>
   Body r' = Body r \<Longrightarrow> fst (getPOSTParams E r') = fst (getPOSTParams E r)"
  by (simp add: getPOSTParams_def ReadAll_def Let_def split: option.splits prod.splits bool.splits)

lemma SignRequest_Inr:
  assumes "SignRequest E s now r = (Inr rs, r')"
  shows "\<exists>body postParams.
     fst (getPOSTParams E r) = Inr (body, postParams) \<and>
     FinalText rs = Path r @ buildParamsSignatureText (mergeParams (getGETParams E r) postParams) body
                       @ Timestamp rs @ secretKey s \<and>
     Timestamp rs = (if header_Get (Header r) (HeadKeyTimestamp E) = [] then formatInt now
                     else header_Get (Header r) (HeadKeyTimestamp E)) \<and>
     Sign rs = hash E (FinalText rs) \<and> AccessKey rs = [] \<and>
     r' = r\<lparr>Header := (Header r)(HeadKeyTimestamp E \<mapsto> [Timestamp rs],
                                   HeadKeyAccessKey E \<mapsto> [accessKey s],
                                   HeadKeySign E \<mapsto> [Sign rs])\<rparr>"
proof -
  from assms have "\<exists>rs0. fst (buildSignatureFromIncomeRequest E s now r) = Inr rs0"
    by (auto simp: SignRequest_def split: prod.splits sum.splits)
  then obtain body postParams where p: "fst (getPOSTParams E r) = Inr (body, postParams)"
    using buildSignature_fst_cases by blast
  from assms show ?thesis
    unfolding SignRequest_def buildSignature_Inr [OF p]
    by (intro exI [of _ body] exI [of _ postParams]) (auto simp: Let_def p header_Set_def)
qed

lemma getPOSTParams_not_expired: "fst (getPOSTParams E r) \<noteq> Inl TimestampExpired"
  by (simp add: getPOSTParams_def ReadAll_def Let_def split: option.splits prod.splits bool.splits)

lemma buildSignature_not_expired:
  "fst (buildSignatureFromIncomeRequest E s now r) \<noteq> Inl TimestampExpired"
  using getPOSTParams_not_expired [of E r]
  by (cases "getPOSTParams E r")
     (auto simp: buildSignatureFromIncomeRequest_def Let_def split: sum.splits)

lemma ValidateRequest_expired_iff:
  assumes "ParseInt (header_Get (Header r) (HeadKeyTimestamp E)) = Some t"
  shows "fst (ValidateRequest E s now r) = Inl TimestampExpired \<longleftrightarrow> expired s now t"
  using assms buildSignature_not_expired [of E s now r]
  by (cases "buildSignatureFromIncomeRequest E s now r")
     (auto simp: ValidateRequest_def Let_def split: sum.splits)

lemma ValidateRequest_unparsed:
  assumes "ParseInt (header_Get (Header r) (HeadKeyTimestamp E)) = None"
  shows "ValidateRequest E s now r = (Inl (NumError (header_Get (Header r) (HeadKeyTimestamp E))), r)"
  using assms by (simp add: ValidateRequest_def)

lemma getPOSTParams_snd_readable:
  "Body r = Some rd \<Longrightarrow> \<not> broken rd \<Longrightarrow> snd (getPOSTParams E r) = r"
  by (simp add: getPOSTParams_readable split: option.splits)

lemma buildSignature_snd_readable:
  assumes "Body r = Some rd" and "\<not> broken rd"
  shows "snd (buildSignatureFromIncomeRequest E s now r) = r"
proof (cases "fst (getPOSTParams E r)")
  case (Inl e)
  then show ?thesis using assms by (simp add: buildSignature_Inl getPOSTParams_snd_readable)
next
  case (Inr x)
  then show ?thesis by (cases x) (simp add: buildSignature_Inr Let_def)
qed

lemma SignRequest_Body_readable:
  assumes "Body r = Some rd" and "\<not> broken rd"
  shows "Body (snd (SignRequest E s now r)) = Some rd"
  using buildSignature_snd_readable [OF assms, of E s now] assms(1)
  by (cases "buildSignatureFromIncomeRequest E s now r")
     (auto simp: SignRequest_def Let_def split: sum.splits)

lemma ValidateRequest_snd_readable:
  assumes "Body r = Some rd" and "\<not> broken rd"
  shows "snd (ValidateRequest E s now r) = r"
  using buildSignature_snd_readable [OF assms, of E s now]
  by (cases "buildSignatureFromIncomeRequest E s now r")
     (auto simp: ValidateRequest_def Let_def split: sum.splits option.splits)

lemma getPOSTParams_default:
  assumes "header_Get (Header r) ''Content-Type'' = []"
  shows "fst (getPOSTParams E r) =
         fst (getPOSTParams E (r\<lparr>Header := header_Set (Header r) ''Content-Type''
                                             ''application/x-www-form-urlencoded''\<rparr>))"
  using assms
  by (simp add: getPOSTParams_def header_Set_def header_Get_def defaultContentType_def Let_def
        split: option.splits prod.splits bool.splits)

subsection \<open>Responses\<close>

lemma ValidateResponse_readable:
  assumes "RBody res = Some rd" and "\<not> broken rd"
  shows "ValidateResponse E s res =
    (let ts = header_Get (RHeader res) (HeadKeyTimestamp E);
         sign = header_Get (RHeader res) (HeadKeySign E);
         ak = header_Get (RHeader res) (HeadKeyAccessKey E)
     in if ts = [] then (Inl TimestampMissingInResponseHeader, res)
        else if sign = [] then (Inl SignatureMissingInResponseHeader, res)
        else if ak \<noteq> accessKey s then (Inl AccessKeyValidationFailed, res)
        else (case Request res of
                None \<Rightarrow> (Inl NilDereference, res)
              | Some rq \<Rightarrow>
                  if hash E (Path rq @ pending rd @ ts @ secretKey s) = sign then (Inr (), res)
                  else (Inl SignatureValidationFailed, res)))"
proof -
  have "res\<lparr>RBody := Some (NewBuffer (pending rd))\<rparr> = res"
    using assms by (simp add: NewBuffer_pending)
  then show ?thesis using assms
    by (simp add: ValidateResponse_def ReadAll_def Let_def split: option.splits)
qed

subsection \<open>Evaluation of the examples\<close>

lemmas example_defs = example_env_def example_builder_def example_request_def
  example_sha256_hex_def example_ParseMediaType_def example_ParseQuery_def
  NewSignatureBuilder_def

lemmas eval_defs = SignRequest_def ValidateRequest_def buildSignatureFromIncomeRequest_def
  getPOSTParams_def getGETParams_def mergeParams_def buildParamsSignatureText_eq
  header_Get_def header_Set_def values_Get_def map_index_def ReadAll_def NewBuffer_def
  defaultContentType_def hash_def expired_def

lemmas eval_more = formatInt_def digits.simps digit_char_def ParseInt_def ParseUint_def is_digit_def
  word_sless_alt Let_def

lemmas response_defs = example_response_def unkeyed_response_def ValidateResponse_def

section \<open>The claims\<close>

subsection \<open>C1: signing, then validating\<close>

lemma ValidateRequest_after_SignRequest:
  assumes keys: "distinct [HeadKeyTimestamp E, HeadKeySign E, HeadKeyAccessKey E, ''Content-Type'']"
    and sign: "SignRequest E s now r = (Inr rs, r')"
    and ts: "if header_Get (Header r) (HeadKeyTimestamp E) = [] then t = now
             else ParseInt (header_Get (Header r) (HeadKeyTimestamp E)) = Some t"
    and fresh: "\<not> expired s now' t"
  shows "ValidateRequest E s now' r' = (Inr (), r')"
proof -
  from SignRequest_Inr [OF sign] obtain body postParams where
    p: "fst (getPOSTParams E r) = Inr (body, postParams)" and
    ft: "FinalText rs = Path r @ buildParamsSignatureText (mergeParams (getGETParams E r) postParams) body
                       @ Timestamp rs @ secretKey s" and
    tsv: "Timestamp rs = (if header_Get (Header r) (HeadKeyTimestamp E) = [] then formatInt now
                     else header_Get (Header r) (HeadKeyTimestamp E))" and
    sg: "Sign rs = hash E (FinalText rs)" and ak: "AccessKey rs = []" and
    r': "r' = r\<lparr>Header := (Header r)(HeadKeyTimestamp E \<mapsto> [Timestamp rs],
                                   HeadKeyAccessKey E \<mapsto> [accessKey s],
                                   HeadKeySign E \<mapsto> [Sign rs])\<rparr>"
    by blast
  have ne: "Timestamp rs \<noteq> []" using tsv by (simp add: formatInt_not_Nil)
  have parsed: "ParseInt (Timestamp rs) = Some t"
    using ts tsv by (auto simp: ParseInt_formatInt split: if_splits)
  have h_ts: "header_Get (Header r') (HeadKeyTimestamp E) = Timestamp rs"
    using keys by (auto simp: r' header_Get_def)
  have h_sg: "header_Get (Header r') (HeadKeySign E) = Sign rs"
    using keys by (auto simp: r' header_Get_def)
  have h_ct: "header_Get (Header r') ''Content-Type'' = header_Get (Header r) ''Content-Type''"
    using keys by (auto simp: r' header_Get_def)
  have "fst (getPOSTParams E r') = fst (getPOSTParams E r)"
    using h_ct by (rule getPOSTParams_cong) (simp add: r')
  with p have p': "fst (getPOSTParams E r') = Inr (body, postParams)" by simp
  have g: "getGETParams E r' = getGETParams E r" by (simp add: getGETParams_def r')
  have pth: "Path r' = Path r" by (simp add: r')
  have "buildSignatureFromIncomeRequest E s now' r' = (Inr rs, r')"
    unfolding buildSignature_Inr [OF p'] h_ts g pth using ne ft sg ak
    by (cases rs) (simp add: Let_def)
  then show ?thesis
    using parsed fresh h_ts h_sg by (simp add: ValidateRequest_def)
qed

lemma getPOSTParams_supported:
  assumes "Body r = Some rd" and "\<not> broken rd"
    and "declared = header_Get (Header r) ''Content-Type''"
    and "ParseMediaType E (if declared = [] then ''application/x-www-form-urlencoded'' else declared)
           = Some ct"
    and "Contains ct ''application/json'' \<or>
         Contains ct ''application/x-www-form-urlencoded'' \<and> \<not> snd (ParseQuery E (pending rd))"
  shows "\<exists>body postParams. fst (getPOSTParams E r) = Inr (body, postParams)"
proof -
  have m: "ParseMediaType E
             (if header_Get (Header r) ''Content-Type'' = [] then defaultContentType
              else header_Get (Header r) ''Content-Type'') = Some ct"
    using assms(3,4) by (simp only: defaultContentType_def)
  show ?thesis
    unfolding getPOSTParams_readable [OF assms(1,2)] m using assms(5)
    by (auto simp: defaultContentType_def)
qed

lemma SignRequest_succeeds:
  assumes "fst (getPOSTParams E r) = Inr (body, postParams)"
  shows "\<exists>rs r'. SignRequest E s now r = (Inr rs, r')"
  by (simp add: SignRequest_def buildSignature_Inr [OF assms] Let_def)

text \<open>
  Claim C1, as the code has it. Signing takes the timestamp from the request when it
  already carries one, so the round trip needs that timestamp to be one the validation
  accepts. Let the three header names be distinct and none of them \<open>Content-Type\<close>. Take
  any request with a readable body whose content type, or
  \<^verbatim>\<open>application/x-www-form-urlencoded\<close> when the header is absent, parses to a supported
  media type: one that contains \<^verbatim>\<open>application/json\<close>, or one that contains
  \<^verbatim>\<open>application/x-www-form-urlencoded\<close> with a body that parses as a query string. If
  the request carries no timestamp header, so that the timestamp is the time of signing,
  or carries a decimal 64-bit integer, and that timestamp has not expired when the request
  is validated, then \<^verbatim>\<open>SignRequest\<close> succeeds, and \<^verbatim>\<open>ValidateRequest\<close> with the same
  builder succeeds on the signed request and leaves it as it is.
\<close>

theorem SignRequest_ValidateRequest:
  assumes keys: "distinct [HeadKeyTimestamp E, HeadKeySign E, HeadKeyAccessKey E, ''Content-Type'']"
    and body: "Body r = Some rd" "\<not> broken rd"
    and declared: "declared = header_Get (Header r) ''Content-Type''"
    and media: "ParseMediaType E (if declared = [] then ''application/x-www-form-urlencoded''
                                  else declared) = Some ct"
    and supported: "Contains ct ''application/json'' \<or>
                    Contains ct ''application/x-www-form-urlencoded'' \<and>
                    \<not> snd (ParseQuery E (pending rd))"
    and ts: "if header_Get (Header r) (HeadKeyTimestamp E) = [] then t = now
             else ParseInt (header_Get (Header r) (HeadKeyTimestamp E)) = Some t"
    and fresh: "\<not> expired s now' t"
  shows "\<exists>rs r'. SignRequest E s now r = (Inr rs, r') \<and>
                 ValidateRequest E s now' r' = (Inr (), r')"
proof -
  from getPOSTParams_supported [OF body declared media supported]
  obtain b postParams where "fst (getPOSTParams E r) = Inr (b, postParams)" by blast
  from SignRequest_succeeds [OF this, of s now]
  obtain rs r' where sign: "SignRequest E s now r = (Inr rs, r')" by blast
  from ValidateRequest_after_SignRequest [OF keys sign ts fresh] sign
  show ?thesis by blast
qed

theorem SignRequest_ValidateRequest_witness:
  "distinct [HeadKeyTimestamp example_env, HeadKeySign example_env, HeadKeyAccessKey example_env,
     ''Content-Type''] \<and>
   Body example_request = Some (NewBuffer ''a=b&d=c'') \<and> \<not> broken (NewBuffer ''a=b&d=c'') \<and>
   header_Get (Header example_request) ''Content-Type'' = [] \<and>
   ParseMediaType example_env ''application/x-www-form-urlencoded'' =
     Some ''application/x-www-form-urlencoded'' \<and>
   Contains ''application/x-www-form-urlencoded'' ''application/x-www-form-urlencoded'' \<and>
   \<not> snd (ParseQuery example_env (pending (NewBuffer ''a=b&d=c''))) \<and>
   header_Get (Header example_request) (HeadKeyTimestamp example_env) = [] \<and>
   \<not> expired example_builder 1700000060 1700000000 \<and>
   fst (SignRequest example_env example_builder 1700000000 example_request) =
     Inr \<lparr>FinalText = ''/v1/photos/generatea=bd=cdata=a1700000000sk'', Timestamp = ''1700000000'',
          Sign = ''3e0e5cf8447cb546e74ee9094d69bfcb5d1f423147bd4378b9934d24576e0834'',
          AccessKey = []\<rparr> \<and>
   fst (ValidateRequest example_env example_builder 1700000060
          (snd (SignRequest example_env example_builder 1700000000 example_request))) = Inr ()"
proof -
  have keys: "distinct [HeadKeyTimestamp example_env, HeadKeySign example_env,
                HeadKeyAccessKey example_env, ''Content-Type'']"
    by (simp add: example_env_def)
  have body: "Body example_request = Some (NewBuffer ''a=b&d=c'')"
    "\<not> broken (NewBuffer ''a=b&d=c'')"
    by (simp_all add: example_request_def NewBuffer_def)
  have declared: "[] = header_Get (Header example_request) ''Content-Type''"
    by (simp add: example_request_def header_Get_def)
  have media: "ParseMediaType example_env
                 (if ([] :: string) = [] then ''application/x-www-form-urlencoded'' else [])
               = Some ''application/x-www-form-urlencoded''"
    by (simp add: example_defs)
  have form: "Contains ''application/x-www-form-urlencoded'' ''application/x-www-form-urlencoded''"
    by simp
  have parses: "\<not> snd (ParseQuery example_env (pending (NewBuffer ''a=b&d=c'')))"
    by (simp add: example_defs NewBuffer_def)
  from form parses
  have supported: "Contains ''application/x-www-form-urlencoded'' ''application/json'' \<or>
      Contains ''application/x-www-form-urlencoded'' ''application/x-www-form-urlencoded'' \<and>
      \<not> snd (ParseQuery example_env (pending (NewBuffer ''a=b&d=c'')))"
    by blast
  have absent: "header_Get (Header example_request) (HeadKeyTimestamp example_env) = []"
    by (simp add: example_defs header_Get_def)
  then have ts: "if header_Get (Header example_request) (HeadKeyTimestamp example_env) = []
                 then (1700000000 :: int64) = 1700000000
                 else ParseInt (header_Get (Header example_request) (HeadKeyTimestamp example_env))
                        = Some 1700000000"
    by simp
  have fresh: "\<not> expired example_builder 1700000060 1700000000"
    by (simp add: expired_def example_defs word_sless_alt)
  have result: "fst (SignRequest example_env example_builder 1700000000 example_request) =
     Inr \<lparr>FinalText = ''/v1/photos/generatea=bd=cdata=a1700000000sk'', Timestamp = ''1700000000'',
          Sign = ''3e0e5cf8447cb546e74ee9094d69bfcb5d1f423147bd4378b9934d24576e0834'',
          AccessKey = []\<rparr>"
    by (simp add: example_defs eval_defs eval_more)
  from SignRequest_ValidateRequest [OF keys body declared media supported ts fresh]
  obtain rs r' where
    "SignRequest example_env example_builder 1700000000 example_request = (Inr rs, r')"
    "ValidateRequest example_env example_builder 1700000060 r' = (Inr (), r')"
    by blast
  then have "fst (ValidateRequest example_env example_builder 1700000060
          (snd (SignRequest example_env example_builder 1700000000 example_request))) = Inr ()"
    by simp
  with keys body declared media form parses absent fresh result show ?thesis
    by (simp add: example_defs)
qed

text \<open>
  Claim C1 as stated fails: a request that already carries a timestamp header which is not
  a decimal integer is signed with that value, and the validation that follows at the very
  same second rejects it with the error of \<^verbatim>\<open>strconv.ParseInt\<close>.
\<close>

theorem SignRequest_ValidateRequest_counterexample:
  "fst (SignRequest example_env example_builder 1700000000 dated_request) =
     Inr \<lparr>FinalText = ''/v1/photos/generatea=bd=cdata=a2023-11-14T22:13:20Zsk'',
          Timestamp = ''2023-11-14T22:13:20Z'',
          Sign = ''febd927629af1068b0056aa6311753b11cacdfe99b075c677dfb5b3107c02e9d'',
          AccessKey = []\<rparr> \<and>
   fst (ValidateRequest example_env example_builder 1700000000
          (snd (SignRequest example_env example_builder 1700000000 dated_request))) =
     Inl (NumError ''2023-11-14T22:13:20Z'')"
  by (simp add: dated_request_def example_defs eval_defs eval_more)

subsection \<open>C2: the canonical text\<close>

text \<open>
  Claim C2. For every parameter map (an association list with distinct keys, in whatever
  order the map is visited) and every body, the canonical text is the concatenation of
  \<open>key=value\<close> for every key of the map, the keys in strictly ascending lexicographic
  order and nothing between the pairs, followed by the body. Two lists that hold the same
  map, whatever the order of their entries, give the same text; and the parameters
  \<open>{data:a, a:b, d:c}\<close> with an empty body give \<open>a=bd=cdata=a\<close>.
\<close>

theorem buildParamsSignatureText_canonical:
  assumes "distinct (map fst params)" and "distinct (map fst params')"
    and "map_of params' = map_of params"
  shows "(let keys = sorted_list_of_set (fst ` set params)
          in sorted_wrt (<) keys \<and> set keys = fst ` set params \<and>
             buildParamsSignatureText params body =
               concat (map (\<lambda>k. k @ ''='' @ the (map_of params k)) keys) @ body) \<and>
         buildParamsSignatureText params' body = buildParamsSignatureText params body \<and>
         buildParamsSignatureText [(''data'', ''a''), (''a'', ''b''), (''d'', ''c'')] [] =
           ''a=bd=cdata=a''"
proof -
  have "buildParamsSignatureText [(''data'', ''a''), (''a'', ''b''), (''d'', ''c'')] [] =
          ''a=bd=cdata=a''"
    by code_simp
  moreover have "sorted_wrt (<) (sorted_list_of_set (fst ` set params))"
    by (simp add: strict_sorted_iff)
  ultimately show ?thesis
    using buildParamsSignatureText_keys [OF assms(1)] buildParamsSignatureText_map_of [OF assms]
    by (simp add: Let_def)
qed

theorem buildParamsSignatureText_canonical_witness:
  "distinct (map fst [(''a'', ''1''), (''b'', ''2'')]) \<and>
   distinct (map fst [(''b'', ''2''), (''a'', ''1'')]) \<and>
   map_of [(''b'', ''2''), (''a'', ''1'')] = map_of [(''a'', ''1''), (''b'', ''2'')] \<and>
   buildParamsSignatureText [(''b'', ''2''), (''a'', ''1'')] ''x'' =
     buildParamsSignatureText [(''a'', ''1''), (''b'', ''2'')] ''x'' \<and>
   buildParamsSignatureText [(''a'', ''1''), (''b'', ''2'')] ''x'' = ''a=1b=2x''"
proof -
  have d1: "distinct (map fst [(''a'', ''1''), (''b'', ''2'')])" by simp
  have d2: "distinct (map fst [(''b'', ''2''), (''a'', ''1'')])" by simp
  have m: "map_of [(''b'', ''2''), (''a'', ''1'')] = map_of [(''a'', ''1''), (''b'', ''2'')]"
    by (rule ext) simp
  have "buildParamsSignatureText [(''a'', ''1''), (''b'', ''2'')] ''x'' = ''a=1b=2x''"
    by code_simp
  with d1 d2 m show ?thesis
    using buildParamsSignatureText_canonical [OF d1 d2 m, of "''x''"] by simp
qed

subsection \<open>C3: the timestamp of a request\<close>

text \<open>
  Claim C3, as the code has it. \<^verbatim>\<open>ValidateRequest\<close> has one error for a timestamp it
  cannot read, the error of \<^verbatim>\<open>strconv.ParseInt\<close> that quotes the header value: it is
  returned when the header is absent, the value being the empty string then, and when the
  value is not a decimal 64-bit integer, as every string with a character other than a
  digit or a sign is. When the value parses to \<open>t\<close> and the difference \<open>now - t\<close> fits 64
  bits, the request is rejected as expired if and only if the window is positive and
  \<open>now - t\<close> exceeds it. With a window of 3600 the timestamp \<open>now - 3600\<close> passes and
  \<open>now - 3601\<close> is rejected; a timestamp in the future passes (the clock not being
  negative); a window of zero or less rejects no timestamp at all.
\<close>

theorem ValidateRequest_timestamp:
  assumes "ts = header_Get (Header r) (HeadKeyTimestamp E)"
  shows "(Header r (HeadKeyTimestamp E) = None \<longrightarrow>
            ValidateRequest E s now r = (Inl (NumError []), r)) \<and>
         (ParseInt ts = None \<longrightarrow> ValidateRequest E s now r = (Inl (NumError ts), r)) \<and>
         ((\<exists>c\<in>set ts. \<not> is_digit c \<and> c \<noteq> CHR ''+'' \<and> c \<noteq> CHR ''-'') \<longrightarrow> ParseInt ts = None) \<and>
         (ParseInt ts = Some t \<longrightarrow>
            (let rejected = (fst (ValidateRequest E s now r) = Inl TimestampExpired)
             in (- (2 ^ 63) \<le> sint now - sint t \<and> sint now - sint t < 2 ^ 63 \<longrightarrow>
                   (rejected \<longleftrightarrow>
                      0 < sint (expiredIn s) \<and> sint (expiredIn s) < sint now - sint t)) \<and>
                (expiredIn s = 3600 \<and> t = now - 3600 \<longrightarrow> \<not> rejected) \<and>
                (expiredIn s = 3600 \<and> t = now - 3601 \<longrightarrow> rejected) \<and>
                (0 \<le> sint now \<and> sint now < sint t \<longrightarrow> \<not> rejected) \<and>
                (sint (expiredIn s) \<le> 0 \<longrightarrow> \<not> rejected)))"
proof -
  have absent: "Header r (HeadKeyTimestamp E) = None \<Longrightarrow> ts = []"
    using assms by (simp add: header_Get_def)
  have 1: "ParseInt ts = None \<Longrightarrow> ValidateRequest E s now r = (Inl (NumError ts), r)"
    using assms by (simp add: ValidateRequest_unparsed)
  have 2: "ParseInt ts = Some t \<Longrightarrow>
           fst (ValidateRequest E s now r) = Inl TimestampExpired \<longleftrightarrow> expired s now t"
    using assms by (simp add: ValidateRequest_expired_iff)
  have 3: "ParseInt [] = None" by (simp add: ParseInt_def)
  show ?thesis
    using absent 1 2 3 expired_iff [of now t s] expired_window [of s now]
      expired_disabled [of s now t] expired_future [of now t s] ParseInt_non_numeric [of _ ts]
    unfolding Let_def by blast
qed

theorem ValidateRequest_timestamp_witness:
  "ValidateRequest example_env example_builder 1700000000 example_request =
     (Inl (NumError []), example_request) \<and>
   ValidateRequest example_env example_builder 1700000000 (stamped_request ''abc'') =
     (Inl (NumError ''abc''), stamped_request ''abc'') \<and>
   ParseInt ''1699996400'' = Some (1700000000 - 3600) \<and>
   fst (ValidateRequest example_env example_builder 1700000000 (stamped_request ''1699996400''))
     \<noteq> Inl TimestampExpired \<and>
   ParseInt ''1699996399'' = Some (1700000000 - 3601) \<and>
   fst (ValidateRequest example_env example_builder 1700000000 (stamped_request ''1699996399''))
     = Inl TimestampExpired \<and>
   ParseInt ''1700000100'' = Some 1700000100 \<and>
   fst (ValidateRequest example_env example_builder 1700000000 (stamped_request ''1700000100''))
     \<noteq> Inl TimestampExpired"
proof -
  have w: "expiredIn example_builder = 3600"
    by (simp add: example_builder_def NewSignatureBuilder_def)
  have g: "header_Get (Header (stamped_request ts)) (HeadKeyTimestamp example_env) = ts" for ts
    by (simp add: stamped_request_def example_defs header_Get_def)
  have a: "[] = header_Get (Header example_request) (HeadKeyTimestamp example_env)"
    "Header example_request (HeadKeyTimestamp example_env) = None"
    by (simp_all add: example_defs header_Get_def)
  have 1: "ValidateRequest example_env example_builder 1700000000 example_request =
     (Inl (NumError []), example_request)"
    using ValidateRequest_timestamp [OF a(1), where s = example_builder and now = 1700000000 and t = 0] a(2)
    by (simp add: Let_def)
  have c: "\<exists>c\<in>set ''abc''. \<not> is_digit c \<and> c \<noteq> CHR ''+'' \<and> c \<noteq> CHR ''-''"
    by (simp add: is_digit_def)
  have 2: "ValidateRequest example_env example_builder 1700000000 (stamped_request ''abc'') =
     (Inl (NumError ''abc''), stamped_request ''abc'')"
    using ValidateRequest_timestamp [OF g [of "''abc''", symmetric], where s = example_builder and now = 1700000000 and t = 0] c
    by (simp add: Let_def)
  have p3: "ParseInt ''1699996400'' = Some (1700000000 - 3600)" by (simp add: eval_more)
  have 3: "fst (ValidateRequest example_env example_builder 1700000000 (stamped_request ''1699996400''))
     \<noteq> Inl TimestampExpired"
    using ValidateRequest_timestamp [OF g [of "''1699996400''", symmetric], where s = example_builder and now = 1700000000 and t = "1700000000 - 3600"] p3 w
    by (simp add: Let_def)
  have p4: "ParseInt ''1699996399'' = Some (1700000000 - 3601)" by (simp add: eval_more)
  have 4: "fst (ValidateRequest example_env example_builder 1700000000 (stamped_request ''1699996399''))
     = Inl TimestampExpired"
    using ValidateRequest_timestamp [OF g [of "''1699996399''", symmetric], where s = example_builder and now = 1700000000 and t = "1700000000 - 3601"] p4 w
    by (simp add: Let_def)
  have p5: "ParseInt ''1700000100'' = Some 1700000100" by (simp add: eval_more)
  have f: "0 \<le> sint (1700000000 :: int64) \<and> sint (1700000000 :: int64) < sint (1700000100 :: int64)"
    by simp
  have 5: "fst (ValidateRequest example_env example_builder 1700000000 (stamped_request ''1700000100''))
     \<noteq> Inl TimestampExpired"
    using ValidateRequest_timestamp [OF g [of "''1700000100''", symmetric], where s = example_builder and now = 1700000000 and t = "1700000100"] p5 f
    by (simp add: Let_def)
  from 1 2 p3 3 p4 4 p5 5 show ?thesis by blast
qed

text \<open>
  Claim C3 as stated fails twice. The request without a timestamp header is rejected with
  the parse error of the empty string: the code has no error of its own for a missing
  timestamp. And the subtraction is the one of \<^verbatim>\<open>int64\<close>: for the timestamp \<open>- 2\<^sup>6\<^sup>3\<close>,
  which \<^verbatim>\<open>strconv.ParseInt\<close> accepts, \<open>now - t\<close> wraps around to a negative number, and
  the request passes the expiry test, and the whole validation, although its age exceeds
  the window of 3600 seconds.
\<close>

theorem ValidateRequest_timestamp_counterexample:
  "fst (ValidateRequest example_env example_builder 1700000000 example_request) = Inl (NumError []) \<and>
   ParseInt ''-9223372036854775808'' = Some (- 9223372036854775808) \<and>
   0 < sint (expiredIn example_builder) \<and>
   sint (expiredIn example_builder) < sint (1700000000 :: int64) - sint (- 9223372036854775808 :: int64) \<and>
   fst (ValidateRequest example_env example_builder 1700000000 ancient_request) = Inr ()"
  by (simp add: ancient_request_def example_defs eval_defs eval_more)

subsection \<open>C4: the result of signing a request\<close>

text \<open>
  Claim C4 against the code. A successful \<^verbatim>\<open>SignRequest\<close> returns the signature, the
  SHA-256 digest of the final signing text, with that text and a non-empty timestamp; the
  fourth field, \<open>AccessKey\<close>, is never set and stays empty, where
  \<^verbatim>\<open>SignResponseBody\<close> returns the access key of the builder in it.
\<close>

theorem SignRequest_result:
  assumes "SignRequest E s now r = (Inr rs, r')"
  shows "Sign rs = hash E (FinalText rs) \<and> Timestamp rs \<noteq> [] \<and>
         FinalText rs \<noteq> [] \<and> AccessKey rs = [] \<and>
         AccessKey (SignResponseBody E s now reqPath body) = accessKey s"
proof -
  from SignRequest_Inr [OF assms] obtain body postParams where
    "FinalText rs = Path r @ buildParamsSignatureText (mergeParams (getGETParams E r) postParams) body
                       @ Timestamp rs @ secretKey s" and
    "Timestamp rs = (if header_Get (Header r) (HeadKeyTimestamp E) = [] then formatInt now
                     else header_Get (Header r) (HeadKeyTimestamp E))" and
    "Sign rs = hash E (FinalText rs)" and "AccessKey rs = []"
    by blast
  then show ?thesis by (auto simp: formatInt_not_Nil SignResponseBody_def Let_def)
qed

theorem SignRequest_result_witness:
  "AccessKey (projr (fst (SignRequest example_env example_builder 1700000000 example_request))) = [] \<and>
   accessKey example_builder = ''ak'' \<and>
   fst (SignRequest example_env example_builder 1700000000 example_request) =
     Inr \<lparr>FinalText = ''/v1/photos/generatea=bd=cdata=a1700000000sk'', Timestamp = ''1700000000'',
          Sign = ''3e0e5cf8447cb546e74ee9094d69bfcb5d1f423147bd4378b9934d24576e0834'',
          AccessKey = []\<rparr>"
proof -
  let ?rs = "\<lparr>FinalText = ''/v1/photos/generatea=bd=cdata=a1700000000sk'',
              Timestamp = ''1700000000'',
              Sign = ''3e0e5cf8447cb546e74ee9094d69bfcb5d1f423147bd4378b9934d24576e0834'',
              AccessKey = []\<rparr>"
  let ?r' = "snd (SignRequest example_env example_builder 1700000000 example_request)"
  have fst: "fst (SignRequest example_env example_builder 1700000000 example_request) = Inr ?rs"
    by (simp add: example_defs eval_defs eval_more)
  then have sign: "SignRequest example_env example_builder 1700000000 example_request = (Inr ?rs, ?r')"
    by (simp add: prod_eq_iff)
  from SignRequest_result [OF sign] fst show ?thesis
    by (simp add: example_builder_def NewSignatureBuilder_def)
qed

subsection \<open>C5: the checks of a response\<close>

text \<open>
  Claim C5 against the code. On a response with a readable body \<^verbatim>\<open>ValidateResponse\<close>
  checks, in this order and returning the error of the first check that fails: the
  timestamp header is there, the signature header is there, the access key header equals
  the access key of the builder, the signature header equals the signature of the body.
  The access key has no check of presence: an absent header reads as the empty string, so
  that it fails with the same error as a wrong access key, and only when the access key of
  the builder is not empty.
\<close>

theorem ValidateResponse_checks:
  assumes "RBody res = Some rd" and "\<not> broken rd"
    and "ts = header_Get (RHeader res) (HeadKeyTimestamp E)"
    and "sign = header_Get (RHeader res) (HeadKeySign E)"
    and "ak = header_Get (RHeader res) (HeadKeyAccessKey E)"
  shows "fst (ValidateResponse E s res) =
           (if ts = [] then Inl TimestampMissingInResponseHeader
            else if sign = [] then Inl SignatureMissingInResponseHeader
            else if ak \<noteq> accessKey s then Inl AccessKeyValidationFailed
            else (case Request res of
                    None \<Rightarrow> Inl NilDereference
                  | Some rq \<Rightarrow>
                      if hash E (Path rq @ pending rd @ ts @ secretKey s) = sign then Inr ()
                      else Inl SignatureValidationFailed)) \<and>
         (RHeader res (HeadKeyAccessKey E) = None \<longrightarrow> ak = [])"
  using assms
  by (simp add: ValidateResponse_readable [OF assms(1,2)] Let_def header_Get_def split: option.splits)

theorem ValidateResponse_checks_witness:
  "RHeader unkeyed_response (HeadKeyAccessKey example_env) = None \<and>
   header_Get (RHeader unkeyed_response) (HeadKeyTimestamp example_env) = ''1700000000'' \<and>
   header_Get (RHeader unkeyed_response) (HeadKeySign example_env) =
     ''65faf5dc0bf292319885f42eb992dc2a81d39957805c66d81160fc8172360579'' \<and>
   fst (ValidateResponse example_env example_builder unkeyed_response) = Inl AccessKeyValidationFailed \<and>
   fst (ValidateResponse example_env example_builder
          (example_response\<lparr>RHeader := (RHeader example_response)(''X-Access-Key'' \<mapsto> [''other''])\<rparr>)) =
     Inl AccessKeyValidationFailed \<and>
   fst (ValidateResponse example_env (example_builder\<lparr>accessKey := []\<rparr>) unkeyed_response) = Inr () \<and>
   fst (ValidateResponse example_env example_builder example_response) = Inr ()"
proof -
  have b: "RBody unkeyed_response = Some (NewBuffer ''aaaaaaa'')" "\<not> broken (NewBuffer ''aaaaaaa'')"
    by (simp_all add: response_defs NewBuffer_def)
  have h: "RHeader unkeyed_response (HeadKeyAccessKey example_env) = None"
    "header_Get (RHeader unkeyed_response) (HeadKeyTimestamp example_env) = ''1700000000''"
    "header_Get (RHeader unkeyed_response) (HeadKeySign example_env) =
       ''65faf5dc0bf292319885f42eb992dc2a81d39957805c66d81160fc8172360579''"
    by (simp_all add: response_defs example_defs header_Get_def)
  have "fst (ValidateResponse example_env example_builder unkeyed_response) = Inl AccessKeyValidationFailed"
    using ValidateResponse_checks [OF b refl refl refl, of example_env example_builder] h
    by (simp add: example_builder_def NewSignatureBuilder_def)
  moreover have "fst (ValidateResponse example_env example_builder
          (example_response\<lparr>RHeader := (RHeader example_response)(''X-Access-Key'' \<mapsto> [''other''])\<rparr>)) =
     Inl AccessKeyValidationFailed"
    by (simp add: response_defs example_defs eval_defs eval_more)
  moreover have "fst (ValidateResponse example_env (example_builder\<lparr>accessKey := []\<rparr>) unkeyed_response) = Inr ()"
    by (simp add: response_defs example_defs eval_defs eval_more)
  moreover have "fst (ValidateResponse example_env example_builder example_response) = Inr ()"
    by (simp add: response_defs example_defs eval_defs eval_more)
  ultimately show ?thesis using h by simp
qed

subsection \<open>C6: the content type\<close>

text \<open>
  Claim C6. Let the body of the request be readable and the declared content type, or
  \<^verbatim>\<open>application/x-www-form-urlencoded\<close> when the header is absent, parse to the media
  type \<open>ct\<close>. If \<open>ct\<close> contains \<^verbatim>\<open>application/json\<close>, the bytes of the body are the body
  text and there are no parameters. Otherwise, if it contains
  \<^verbatim>\<open>application/x-www-form-urlencoded\<close> and the body parses as a query string, the body
  text is empty and the parameters are the keys of the parsed form, each with its first
  value. Every other media type fails with the error for an unsupported content type,
  which names \<open>ct\<close>. A request without the header gives what the same request gives with
  the header set to \<^verbatim>\<open>application/x-www-form-urlencoded\<close>. The first two cases exclude
  each other on a media type, which has one slash at most.
\<close>

theorem getPOSTParams_dispatch:
  assumes "Body r = Some rd" and "\<not> broken rd"
    and "declared = header_Get (Header r) ''Content-Type''"
    and "ParseMediaType E (if declared = [] then ''application/x-www-form-urlencoded'' else declared)
           = Some ct"
    and "ParseQuery E (pending rd) = (vals, err)"
  shows "(Contains ct ''application/json'' \<longrightarrow> fst (getPOSTParams E r) = Inr (pending rd, [])) \<and>
         (\<not> Contains ct ''application/json'' \<and> Contains ct ''application/x-www-form-urlencoded'' \<and>
          \<not> err \<longrightarrow>
            (\<exists>params. fst (getPOSTParams E r) = Inr ([], params) \<and>
               distinct (map fst params) \<and>
               (\<forall>k. map_of params k =
                      (if k \<in> fst ` set vals then Some (values_Get vals k) else None)))) \<and>
         (\<not> Contains ct ''application/json'' \<and>
          \<not> Contains ct ''application/x-www-form-urlencoded'' \<longrightarrow>
            fst (getPOSTParams E r) = Inl (UnsupportedContentType ct)) \<and>
         (declared = [] \<longrightarrow>
            fst (getPOSTParams E r) =
            fst (getPOSTParams E (r\<lparr>Header := header_Set (Header r) ''Content-Type''
                                                ''application/x-www-form-urlencoded''\<rparr>))) \<and>
         (count_list ct CHR ''/'' \<le> 1 \<longrightarrow>
            \<not> (Contains ct ''application/json'' \<and>
               Contains ct ''application/x-www-form-urlencoded''))"
proof -
  let ?params = "foldl (\<lambda>params (k, _). AList.update k (values_Get vals k) params) [] vals"
  have R: "fst (getPOSTParams E r) =
     (if Contains ct ''application/json'' then Inr (pending rd, [])
      else if Contains ct ''application/x-www-form-urlencoded'' then
        (if err then Inl FailedToParseFormData else Inr ([], ?params))
      else Inl (UnsupportedContentType ct))"
  proof -
    have m: "ParseMediaType E
               (if header_Get (Header r) ''Content-Type'' = [] then defaultContentType
                else header_Get (Header r) ''Content-Type'') = Some ct"
      using assms(3,4) by (simp only: defaultContentType_def)
    show ?thesis
      unfolding getPOSTParams_readable [OF assms(1,2)] m using assms(5)
      by (simp add: defaultContentType_def)
  qed
  have "distinct (map fst ?params)" by (simp add: foldl_update_distinct)
  moreover have "\<forall>k. map_of ?params k =
      (if k \<in> fst ` set vals then Some (values_Get vals k) else None)"
    by (simp add: foldl_update_map_of)
  ultimately have form: "\<not> Contains ct ''application/json'' \<and>
      Contains ct ''application/x-www-form-urlencoded'' \<and> \<not> err \<longrightarrow>
      (\<exists>params. fst (getPOSTParams E r) = Inr ([], params) \<and> distinct (map fst params) \<and>
         (\<forall>k. map_of params k = (if k \<in> fst ` set vals then Some (values_Get vals k) else None)))"
    using R by auto
  have dflt: "declared = [] \<longrightarrow>
            fst (getPOSTParams E r) =
            fst (getPOSTParams E (r\<lparr>Header := header_Set (Header r) ''Content-Type''
                                                ''application/x-www-form-urlencoded''\<rparr>))"
    using assms(3) getPOSTParams_default [of r E] by simp
  from R have "Contains ct ''application/json'' \<longrightarrow> fst (getPOSTParams E r) = Inr (pending rd, [])"
    by simp
  moreover from R have "\<not> Contains ct ''application/json'' \<and>
          \<not> Contains ct ''application/x-www-form-urlencoded'' \<longrightarrow>
            fst (getPOSTParams E r) = Inl (UnsupportedContentType ct)"
    by simp
  ultimately show ?thesis using form dflt media_type_exclusive [of ct] by blast
qed

theorem getPOSTParams_dispatch_witness:
  "fst (getPOSTParams example_env json_request) = Inr (''{\"a\":1}'', []) \<and>
   fst (getPOSTParams example_env (typed_request ''application/x-www-form-urlencoded'')) =
     Inr ([], [(''a'', ''b''), (''d'', ''c'')]) \<and>
   fst (getPOSTParams example_env example_request) = Inr ([], [(''a'', ''b''), (''d'', ''c'')]) \<and>
   fst (getPOSTParams example_env (typed_request ''text/plain'')) =
     Inl (UnsupportedContentType ''text/plain'')"
proof -
  have b: "Body (typed_request ''text/plain'') = Some (NewBuffer ''a=b&d=c'')"
    "\<not> broken (NewBuffer ''a=b&d=c'')"
    by (simp_all add: typed_request_def example_request_def NewBuffer_def)
  have m: "ParseMediaType example_env
             (if header_Get (Header (typed_request ''text/plain'')) ''Content-Type'' = []
              then ''application/x-www-form-urlencoded''
              else header_Get (Header (typed_request ''text/plain'')) ''Content-Type'')
           = Some ''text/plain''"
    by (simp add: typed_request_def example_defs header_Get_def)
  have q: "ParseQuery example_env (pending (NewBuffer ''a=b&d=c'')) =
             ([(''a'', [''b'']), (''d'', [''c''])], False)"
    by (simp add: example_defs NewBuffer_def)
  have "fst (getPOSTParams example_env (typed_request ''text/plain'')) =
          Inl (UnsupportedContentType ''text/plain'')"
    using getPOSTParams_dispatch [OF b refl m q] by simp
  moreover have "fst (getPOSTParams example_env json_request) = Inr (''{\"a\":1}'', [])"
    by (simp add: json_request_def example_defs eval_defs Let_def)
  moreover have "fst (getPOSTParams example_env (typed_request ''application/x-www-form-urlencoded'')) =
     Inr ([], [(''a'', ''b''), (''d'', ''c'')])"
    by (simp add: typed_request_def example_defs eval_defs Let_def)
  moreover have "fst (getPOSTParams example_env example_request) = Inr ([], [(''a'', ''b''), (''d'', ''c'')])"
    by (simp add: example_defs eval_defs Let_def)
  ultimately show ?thesis by simp
qed

subsection \<open>C7: query and form parameters\<close>

text \<open>
  Claim C7. When the form body of a request parses to the parameters \<open>postParams\<close>, the
  signing text is built from the map that merges the query parameters with them: the
  merged map holds, for every key of the form, the value of the form, also where the
  query string has the key too, and for every other key what the query string holds.
\<close>

theorem mergeParams_precedence:
  assumes "fst (getPOSTParams E r) = Inr (body, postParams)"
    and "queryParams = getGETParams E r"
  shows "(\<exists>rs. fst (buildSignatureFromIncomeRequest E s now r) = Inr rs \<and>
            FinalText rs = Path r @ buildParamsSignatureText (mergeParams queryParams postParams) body
                             @ Timestamp rs @ secretKey s) \<and>
         distinct (map fst (mergeParams queryParams postParams)) \<and>
         map_of (mergeParams queryParams postParams) = map_of queryParams ++ map_of postParams \<and>
         (\<forall>k\<in>fst ` set postParams.
            map_of (mergeParams queryParams postParams) k = map_of postParams k) \<and>
         (\<forall>k. k \<notin> fst ` set postParams \<longrightarrow>
            map_of (mergeParams queryParams postParams) k = map_of queryParams k)"
proof -
  have d: "distinct (map fst postParams)" using assms(1) by (rule getPOSTParams_distinct)
  have m: "map_of (mergeParams queryParams postParams) = map_of queryParams ++ map_of postParams"
    using d by (rule mergeParams_map_of)
  have "distinct (map fst (mergeParams queryParams postParams))"
    using assms(2) by (simp add: mergeParams_distinct getGETParams_distinct)
  moreover have "\<forall>k\<in>fst ` set postParams.
            map_of (mergeParams queryParams postParams) k = map_of postParams k"
    unfolding m by (auto simp: map_add_dom_app_simps dom_map_of_conv_image_fst)
  moreover have "\<forall>k. k \<notin> fst ` set postParams \<longrightarrow>
            map_of (mergeParams queryParams postParams) k = map_of queryParams k"
    unfolding m by (auto simp: map_add_dom_app_simps dom_map_of_conv_image_fst)
  ultimately show ?thesis
    using m assms(2) by (simp add: buildSignature_Inr [OF assms(1)] Let_def)
qed

theorem mergeParams_precedence_witness:
  "getGETParams example_env colliding_request = [(''a'', ''x''), (''data'', ''a'')] \<and>
   fst (getPOSTParams example_env colliding_request) = Inr ([], [(''a'', ''b''), (''d'', ''c'')]) \<and>
   mergeParams [(''a'', ''x''), (''data'', ''a'')] [(''a'', ''b''), (''d'', ''c'')] =
     [(''a'', ''b''), (''data'', ''a''), (''d'', ''c'')] \<and>
   map_of (mergeParams [(''a'', ''x''), (''data'', ''a'')] [(''a'', ''b''), (''d'', ''c'')]) ''a'' = Some ''b'' \<and>
   FinalText (projr (fst (buildSignatureFromIncomeRequest example_env example_builder 1700000000
                            colliding_request))) =
     ''/v1/photos/generatea=bd=cdata=a1700000000sk''"
proof -
  have g: "[(''a'', ''x''), (''data'', ''a'')] = getGETParams example_env colliding_request"
    by (simp add: colliding_request_def example_defs eval_defs)
  have p: "fst (getPOSTParams example_env colliding_request) = Inr ([], [(''a'', ''b''), (''d'', ''c'')])"
    by (simp add: colliding_request_def example_defs eval_defs Let_def)
  have f: "FinalText (projr (fst (buildSignatureFromIncomeRequest example_env example_builder 1700000000
                            colliding_request))) =
     ''/v1/photos/generatea=bd=cdata=a1700000000sk''"
    by (simp add: colliding_request_def example_defs eval_defs eval_more)
  have e: "mergeParams [(''a'', ''x''), (''data'', ''a'')] [(''a'', ''b''), (''d'', ''c'')] =
     [(''a'', ''b''), (''data'', ''a''), (''d'', ''c'')]"
    by (simp add: mergeParams_def)
  from mergeParams_precedence [OF p g, of example_builder 1700000000] g p f e
  show ?thesis by simp
qed

subsection \<open>C8: the timestamp and the headers of a signed request\<close>

text \<open>
  Claim C8. When \<^verbatim>\<open>SignRequest\<close> succeeds, the timestamp it signs is the value of the
  timestamp header of the request when there is one (a non-empty one), and the decimal
  form of the current Unix time otherwise. The headers of the request afterwards are the
  headers before with the timestamp, the access key and the signature set: every other
  header is as it was, and so are the path and the query string.
\<close>

theorem SignRequest_headers:
  assumes "SignRequest E s now r = (Inr rs, r')"
  shows "Timestamp rs = (if header_Get (Header r) (HeadKeyTimestamp E) \<noteq> []
                         then header_Get (Header r) (HeadKeyTimestamp E) else formatInt now) \<and>
         (\<exists>text. FinalText rs = Path r @ text @ Timestamp rs @ secretKey s) \<and>
         Sign rs = hash E (FinalText rs) \<and>
         Header r' = (Header r)(HeadKeyTimestamp E \<mapsto> [Timestamp rs],
                                HeadKeyAccessKey E \<mapsto> [accessKey s],
                                HeadKeySign E \<mapsto> [Sign rs]) \<and>
         (\<forall>k. k \<notin> {HeadKeyTimestamp E, HeadKeyAccessKey E, HeadKeySign E} \<longrightarrow>
              Header r' k = Header r k) \<and>
         Path r' = Path r \<and> RawQuery r' = RawQuery r"
proof -
  from SignRequest_Inr [OF assms] obtain body postParams where
    ft: "FinalText rs = Path r @ buildParamsSignatureText (mergeParams (getGETParams E r) postParams) body
                       @ Timestamp rs @ secretKey s" and
    ts: "Timestamp rs = (if header_Get (Header r) (HeadKeyTimestamp E) = [] then formatInt now
                     else header_Get (Header r) (HeadKeyTimestamp E))" and
    sg: "Sign rs = hash E (FinalText rs)" and
    r': "r' = r\<lparr>Header := (Header r)(HeadKeyTimestamp E \<mapsto> [Timestamp rs],
                                   HeadKeyAccessKey E \<mapsto> [accessKey s],
                                   HeadKeySign E \<mapsto> [Sign rs])\<rparr>"
    by blast
  from ft have "\<exists>text. FinalText rs = Path r @ text @ Timestamp rs @ secretKey s" by blast
  moreover from ts have "Timestamp rs = (if header_Get (Header r) (HeadKeyTimestamp E) \<noteq> []
                         then header_Get (Header r) (HeadKeyTimestamp E) else formatInt now)"
    by simp
  moreover have "\<forall>k. k \<notin> {HeadKeyTimestamp E, HeadKeyAccessKey E, HeadKeySign E} \<longrightarrow>
              Header r' k = Header r k"
    by (simp add: r')
  ultimately show ?thesis using sg by (simp add: r')
qed

theorem SignRequest_headers_witness:
  "fst (SignRequest example_env example_builder 1700000000 dated_request) =
     Inr \<lparr>FinalText = ''/v1/photos/generatea=bd=cdata=a2023-11-14T22:13:20Zsk'',
          Timestamp = ''2023-11-14T22:13:20Z'',
          Sign = ''febd927629af1068b0056aa6311753b11cacdfe99b075c677dfb5b3107c02e9d'',
          AccessKey = []\<rparr> \<and>
   Header (snd (SignRequest example_env example_builder 1700000000 dated_request)) =
     [''X-Timestamp'' \<mapsto> [''2023-11-14T22:13:20Z''], ''X-Access-Key'' \<mapsto> [''ak''],
      ''X-Sign'' \<mapsto> [''febd927629af1068b0056aa6311753b11cacdfe99b075c677dfb5b3107c02e9d'']] \<and>
   Timestamp (projr (fst (SignRequest example_env example_builder 1700000000 example_request))) =
     ''1700000000''"
proof -
  let ?rs = "\<lparr>FinalText = ''/v1/photos/generatea=bd=cdata=a2023-11-14T22:13:20Zsk'',
          Timestamp = ''2023-11-14T22:13:20Z'',
          Sign = ''febd927629af1068b0056aa6311753b11cacdfe99b075c677dfb5b3107c02e9d'',
          AccessKey = []\<rparr>"
  let ?r' = "snd (SignRequest example_env example_builder 1700000000 dated_request)"
  have fst: "fst (SignRequest example_env example_builder 1700000000 dated_request) = Inr ?rs"
    by (simp add: dated_request_def example_defs eval_defs eval_more)
  then have sign: "SignRequest example_env example_builder 1700000000 dated_request = (Inr ?rs, ?r')"
    by (simp add: prod_eq_iff)
  have h: "Header dated_request = [''X-Timestamp'' \<mapsto> [''2023-11-14T22:13:20Z'']]"
    by (simp add: dated_request_def)
  have "Timestamp (projr (fst (SignRequest example_env example_builder 1700000000 example_request))) =
     ''1700000000''"
    by (simp add: example_defs eval_defs eval_more)
  with SignRequest_headers [OF sign] fst h show ?thesis
    by (simp add: example_defs)
qed

subsection \<open>C9: the body after the operation\<close>

text \<open>
  Claim C9. After \<^verbatim>\<open>SignRequest\<close>, \<^verbatim>\<open>ValidateRequest\<close> and \<^verbatim>\<open>ValidateResponse\<close>,
  whether they succeed or fail, a message whose body was readable has a body that a
  following \<^verbatim>\<open>io.ReadAll\<close> reads without error, to exactly the bytes it held before.
\<close>

theorem body_restored:
  assumes "Body r = Some rd" and "\<not> broken rd" and "RBody res = Some rd'" and "\<not> broken rd'"
  shows "(\<exists>b. Body (snd (SignRequest E s now r)) = Some b \<and> fst (ReadAll b) = (pending rd, False)) \<and>
         (\<exists>b. Body (snd (ValidateRequest E s now r)) = Some b \<and>
               fst (ReadAll b) = (pending rd, False)) \<and>
         (\<exists>b. RBody (snd (ValidateResponse E s res)) = Some b \<and>
               fst (ReadAll b) = (pending rd', False))"
proof -
  have "snd (ValidateResponse E s res) = res"
    by (simp add: ValidateResponse_readable [OF assms(3,4)] Let_def split: option.splits)
  then show ?thesis
    using assms SignRequest_Body_readable [OF assms(1,2), of E s now]
      ValidateRequest_snd_readable [OF assms(1,2), of E s now]
    by (simp add: ReadAll_def)
qed

theorem body_restored_witness:
  "Body (snd (SignRequest example_env example_builder 1700000000 example_request)) =
     Some (NewBuffer ''a=b&d=c'') \<and>
   Body (snd (ValidateRequest example_env example_builder 1700000000 example_request)) =
     Some (NewBuffer ''a=b&d=c'') \<and>
   RBody (snd (ValidateResponse example_env example_builder example_response)) =
     Some (NewBuffer ''aaaaaaa'') \<and>
   fst (ReadAll (NewBuffer ''a=b&d=c'')) = (''a=b&d=c'', False)"
proof -
  have b: "Body example_request = Some (NewBuffer ''a=b&d=c'')" "\<not> broken (NewBuffer ''a=b&d=c'')"
    "RBody example_response = Some (NewBuffer ''aaaaaaa'')" "\<not> broken (NewBuffer ''aaaaaaa'')"
    by (simp_all add: example_request_def example_response_def NewBuffer_def)
  from body_restored [OF b, of example_env example_builder 1700000000]
  show ?thesis by (auto simp: ReadAll_def NewBuffer_def)
qed

subsection \<open>C10: no expiry for responses\<close>

text \<open>
  Claim C10. \<^verbatim>\<open>ValidateResponse\<close> reads no clock and does not parse the timestamp.
  For every non-empty timestamp header, a number or not, old or not, a response with a
  readable body whose access key header is the access key of the builder and whose
  signature header is the signature over its path, body and timestamp is accepted,
  whatever the expiry window of the builder.
\<close>

theorem ValidateResponse_no_expiry:
  assumes "RBody res = Some rd" and "\<not> broken rd" and "Request res = Some rq"
    and "ts = header_Get (RHeader res) (HeadKeyTimestamp E)" and "ts \<noteq> []"
    and "header_Get (RHeader res) (HeadKeyAccessKey E) = accessKey s"
    and "header_Get (RHeader res) (HeadKeySign E) = hash E (Path rq @ pending rd @ ts @ secretKey s)"
    and "hash E (Path rq @ pending rd @ ts @ secretKey s) \<noteq> []"
  shows "ValidateResponse E (s\<lparr>expiredIn := window\<rparr>) res = (Inr (), res)"
  using assms by (simp add: ValidateResponse_readable [OF assms(1,2)] Let_def)

theorem ValidateResponse_no_expiry_witness:
  "ParseInt ''yesterday'' = None \<and>
   header_Get (RHeader stale_response) (HeadKeyTimestamp example_env) = ''yesterday'' \<and>
   ValidateResponse example_env (example_builder\<lparr>expiredIn := 1\<rparr>) stale_response =
     (Inr (), stale_response)"
proof -
  let ?rq = "\<lparr>Header = Map.empty, Body = None, Path = ''/v1/photos/generate'', RawQuery = ''data=a''\<rparr>"
  have b: "RBody stale_response = Some (NewBuffer ''aaaaaaa'')" "\<not> broken (NewBuffer ''aaaaaaa'')"
    "Request stale_response = Some ?rq"
    by (simp_all add: stale_response_def example_response_def NewBuffer_def)
  have t: "''yesterday'' = header_Get (RHeader stale_response) (HeadKeyTimestamp example_env)"
    "''yesterday'' \<noteq> []"
    by (simp_all add: stale_response_def example_defs header_Get_def)
  have a: "header_Get (RHeader stale_response) (HeadKeyAccessKey example_env) = accessKey example_builder"
    by (simp add: stale_response_def example_defs header_Get_def)
  have h: "header_Get (RHeader stale_response) (HeadKeySign example_env) =
             hash example_env (Path ?rq @ pending (NewBuffer ''aaaaaaa'') @ ''yesterday'' @
                               secretKey example_builder)"
    "hash example_env (Path ?rq @ pending (NewBuffer ''aaaaaaa'') @ ''yesterday'' @
                               secretKey example_builder) \<noteq> []"
    by (simp_all add: stale_response_def example_defs header_Get_def hash_def NewBuffer_def)
  have "ParseInt ''yesterday'' = None" by (simp add: eval_more)
  with ValidateResponse_no_expiry [OF b t a h, of 1] t(1) show ?thesis by simp
qed

end
